theory Spec2Isabelle
  imports Main
begin

section \<open>Organization Management Service: the tenant lifecycle over a document store\<close>

text \<open>
  The development embeds \<^verbatim>\<open>app/db.py\<close>, \<^verbatim>\<open>app/services/org_service.py\<close> and the
  login route of \<^verbatim>\<open>app/routes/admin.py\<close>. The MongoDB database is an explicit state that
  every operation takes and returns; every \<^verbatim>\<open>raise\<close> is a value of type \<open>error\<close>.

  Boundaries of the model:
  \<^item> strings are \<open>char list\<close>; \<open>strip\<close> and \<open>lower\<close> are Python's on ASCII text
    (the white space of \<^verbatim>\<open>str.isspace\<close> below 128, the letters A to Z);
  \<^item> an \<^verbatim>\<open>ObjectId\<close> is a natural number, \<^verbatim>\<open>str\<close> and \<^verbatim>\<open>ObjectId(...)\<close> between an id and
    its text are the identity, and a fresh id is drawn from a counter of the database;
  \<^item> a collection is the list of its documents in natural order, each paired with its
    \<^verbatim>\<open>_id\<close>; \<^verbatim>\<open>find_one\<close>, \<^verbatim>\<open>update_one\<close> and \<^verbatim>\<open>delete_one\<close> act on the first match;
  \<^item> \<^verbatim>\<open>hash_password\<close> and \<^verbatim>\<open>verify_password\<close> come from \<^verbatim>\<open>app.utils\<close> and are
    parameters, as is the clock read by \<^verbatim>\<open>datetime.utcnow()\<close>;
  \<^item> a signed token is the pair of claims it carries (\<^verbatim>\<open>admin_id\<close>, \<^verbatim>\<open>org_id\<close>);
  \<^item> every call to the store returns: network failures and names the server refuses
    are outside the model.
\<close>

subsection \<open>\<^verbatim>\<open>str.strip().lower()\<close>\<close>

definition whitespace :: "char list" where
  "whitespace =
     [CHR 0x09, CHR 0x0A, CHR 0x0B, CHR 0x0C, CHR 0x0D,
      CHR 0x1C, CHR 0x1D, CHR 0x1E, CHR 0x1F, CHR 0x20]"

definition isspace :: "char \<Rightarrow> bool" where
  "isspace c = (c \<in> set whitespace)"

definition strip :: "string \<Rightarrow> string" where
  "strip s = rev (dropWhile isspace (rev (dropWhile isspace s)))"

definition lower_char :: "char \<Rightarrow> char" where
  "lower_char c =
     (case map_of (zip ''ABCDEFGHIJKLMNOPQRSTUVWXYZ'' ''abcdefghijklmnopqrstuvwxyz'') c of
        Some d \<Rightarrow> d
      | None \<Rightarrow> c)"

definition lower :: "string \<Rightarrow> string" where
  "lower s = map lower_char s"

text \<open>The values of \<open>lower_char\<close> on the capital letters.\<close>

definition lowercase :: "char list" where
  "lowercase = ''abcdefghijklmnopqrstuvwxyz''"

text \<open>The expression \<^verbatim>\<open>name.strip().lower()\<close> that every operation applies to a name.\<close>

definition strip_lower :: "string \<Rightarrow> string" where
  "strip_lower name = lower (strip name)"

subsection \<open>Documents, requests and the database\<close>

type_synonym ObjectId = nat

text \<open>A document of \<^verbatim>\<open>db.organizations\<close> and one of \<^verbatim>\<open>db.admins\<close>, without their \<^verbatim>\<open>_id\<close>.\<close>

record org_doc =
  organization_name :: string
  collection_name :: string
  admin_id :: ObjectId
  created_at :: nat

record admin_doc =
  email :: string
  password :: string
  role :: string
  organization :: string

type_synonym 'a collection = "(ObjectId \<times> 'a) list"

text \<open>The pydantic models of \<^verbatim>\<open>app/models.py\<close>.\<close>

record OrgCreate =
  oc_organization_name :: string
  oc_email :: string
  oc_password :: string

record OrgUpdate =
  ou_organization_name :: string
  ou_email :: "string option"
  ou_password :: "string option"

record OrgOut =
  out_organization_name :: string
  out_collection_name :: string
  out_admin_id :: ObjectId

record AdminLogin =
  al_email :: string
  al_password :: string


text \<open>The dictionary \<^verbatim>\<open>{"admin_id": ..., "org_id": ...}\<close> that \<^verbatim>\<open>get_current_admin\<close> returns.\<close>

record current_admin =
  tok_admin_id :: ObjectId
  tok_org_id :: string

datatype error = HTTPException nat string | TypeError

text \<open>
  The write commands sent to the store. The database keeps them in the order they were
  issued, so that the order of the steps of an operation can be stated.
\<close>

datatype write_op =
    Insert_admin ObjectId
  | Insert_organization ObjectId
  | Set_organization_name ObjectId string string
  | Set_admin_organization ObjectId string
  | Set_admin_fields ObjectId "string option" "string option"
  | Delete_admin ObjectId
  | Delete_organization string
  | Create_collection string
  | Drop_collection string
  | Aggregate_out string string

text \<open>
  \<open>collections\<close> holds the collections of the database other than \<^verbatim>\<open>organizations\<close> and
  \<^verbatim>\<open>admins\<close>; the names tested against \<^verbatim>\<open>list_collection_names()\<close> all start with
  \<^verbatim>\<open>org_\<close>, which neither of the two does.
\<close>

record 'd database =
  organizations :: "org_doc collection"
  admins :: "admin_doc collection"
  collections :: "string \<rightharpoonup> 'd list"
  next_oid :: ObjectId
  journal :: "write_op list"

definition empty_database :: "'d database" where
  "empty_database =
     \<lparr>organizations = [], admins = [], collections = Map.empty, next_oid = 0, journal = []\<rparr>"

subsection \<open>Collection methods\<close>

definition find_one :: "('a \<Rightarrow> bool) \<Rightarrow> 'a collection \<Rightarrow> (ObjectId \<times> 'a) option" where
  "find_one query docs = find (\<lambda>d. query (snd d)) docs"

fun update_one :: "(ObjectId \<times> 'a \<Rightarrow> bool) \<Rightarrow> ('a \<Rightarrow> 'a) \<Rightarrow> 'a collection \<Rightarrow> 'a collection" where
  "update_one query set_fields [] = []"
| "update_one query set_fields (d # docs) =
     (if query d then (fst d, set_fields (snd d)) # docs
      else d # update_one query set_fields docs)"

fun delete_one :: "(ObjectId \<times> 'a \<Rightarrow> bool) \<Rightarrow> 'a collection \<Rightarrow> 'a collection" where
  "delete_one query [] = []"
| "delete_one query (d # docs) = (if query d then docs else d # delete_one query docs)"

definition has_id :: "ObjectId \<Rightarrow> ObjectId \<times> 'a \<Rightarrow> bool" where
  "has_id oid d = (fst d = oid)"

definition named :: "string \<Rightarrow> org_doc \<Rightarrow> bool" where
  "named name org = (organization_name org = name)"

definition admins_insert_one :: "admin_doc \<Rightarrow> 'd database \<Rightarrow> ObjectId \<times> 'd database" where
  "admins_insert_one doc db =
     (let inserted_id = next_oid db in
      (inserted_id,
       db\<lparr>admins := admins db @ [(inserted_id, doc)],
          next_oid := Suc inserted_id,
          journal := journal db @ [Insert_admin inserted_id]\<rparr>))"

definition organizations_insert_one :: "org_doc \<Rightarrow> 'd database \<Rightarrow> ObjectId \<times> 'd database" where
  "organizations_insert_one doc db =
     (let inserted_id = next_oid db in
      (inserted_id,
       db\<lparr>organizations := organizations db @ [(inserted_id, doc)],
          next_oid := Suc inserted_id,
          journal := journal db @ [Insert_organization inserted_id]\<rparr>))"

subsection \<open>\<^verbatim>\<open>app/db.py\<close>\<close>

definition org_collection :: "string \<Rightarrow> string" where
  "org_collection org_name = ''org_'' @ org_name"

definition create_org_collection :: "string \<Rightarrow> 'd database \<Rightarrow> string \<times> 'd database" where
  "create_org_collection org_name db =
     (let coll_name = org_collection org_name in
      if coll_name \<notin> dom (collections db)
      then (coll_name,
            db\<lparr>collections := (collections db)(coll_name \<mapsto> []),
               journal := journal db @ [Create_collection coll_name]\<rparr>)
      else (coll_name, db))"

definition drop_org_collection :: "string \<Rightarrow> 'd database \<Rightarrow> bool \<times> 'd database" where
  "drop_org_collection org_name db =
     (let coll_name = org_collection org_name in
      if coll_name \<in> dom (collections db)
      then (True,
            db\<lparr>collections := (collections db)(coll_name := None),
               journal := journal db @ [Drop_collection coll_name]\<rparr>)
      else (True, db))"

text \<open>
  The pipeline \<^verbatim>\<open>[{"$match": {}}, {"$out": new_coll_name}]\<close> run on the old collection:
  the new collection is created, or replaced, with every document of the old one.
\<close>

definition aggregate_out :: "string \<Rightarrow> string \<Rightarrow> 'd database \<Rightarrow> 'd database" where
  "aggregate_out old_coll_name new_coll_name db =
     (case collections db old_coll_name of
        None \<Rightarrow> db
      | Some docs \<Rightarrow>
          db\<lparr>collections := (collections db)(new_coll_name \<mapsto> docs),
             journal := journal db @ [Aggregate_out old_coll_name new_coll_name]\<rparr>)"

definition drop_collection :: "string \<Rightarrow> 'd database \<Rightarrow> 'd database" where
  "drop_collection coll_name db =
     db\<lparr>collections := (collections db)(coll_name := None),
        journal := journal db @ [Drop_collection coll_name]\<rparr>"

definition rename_and_sync_collection ::
  "string \<Rightarrow> string \<Rightarrow> 'd database \<Rightarrow> bool \<times> 'd database" where
  "rename_and_sync_collection old_org_name new_org_name db =
     (let old_coll_name = org_collection old_org_name;
          new_coll_name = org_collection new_org_name
      in if old_coll_name \<notin> dom (collections db) then (True, db)
         else (True, drop_collection old_coll_name (aggregate_out old_coll_name new_coll_name db)))"

subsection \<open>\<^verbatim>\<open>OrganizationService\<close>\<close>

text \<open>Python's truth value of an \<^verbatim>\<open>Optional[str]\<close>: \<^verbatim>\<open>None\<close> and \<^verbatim>\<open>""\<close> are false.\<close>

fun truthy :: "string option \<Rightarrow> bool" where
  "truthy None = False"
| "truthy (Some s) = (s \<noteq> [])"

definition create_organization ::
  "(string \<Rightarrow> string) \<Rightarrow> nat \<Rightarrow> OrgCreate \<Rightarrow> 'd database \<Rightarrow> (error + OrgOut) \<times> 'd database" where
  "create_organization hash_password utcnow payload db =
     (let org_name = strip_lower (oc_organization_name payload) in
      case find_one (named org_name) (organizations db) of
        Some existing \<Rightarrow> (Inl (HTTPException 400 ''Organization already exists''), db)
      | None \<Rightarrow>
          (let coll_name = org_collection org_name;
               db1 = snd (create_org_collection org_name db);
               new_admin = \<lparr>email = oc_email payload,
                            password = hash_password (oc_password payload),
                            role = ''admin'',
                            organization = org_name\<rparr>;
               (inserted_id, db2) = admins_insert_one new_admin db1;
               new_org = \<lparr>organization_name = org_name,
                          collection_name = coll_name,
                          admin_id = inserted_id,
                          created_at = utcnow\<rparr>;
               db3 = snd (organizations_insert_one new_org db2)
           in (Inr \<lparr>out_organization_name = org_name,
                     out_collection_name = coll_name,
                     out_admin_id = inserted_id\<rparr>, db3)))"

definition get_organization ::
  "string \<Rightarrow> 'd database \<Rightarrow> (error + ObjectId \<times> org_doc) \<times> 'd database" where
  "get_organization name db =
     (case find_one (named (strip_lower name)) (organizations db) of
        None \<Rightarrow> (Inl (HTTPException 404 ''Organization not found''), db)
      | Some org \<Rightarrow> (Inr org, db))"

text \<open>
  Step 2 of \<^verbatim>\<open>update_organization\<close>, the three writes of a rename: the metadata of the
  organization, the link of the admin, the data.
\<close>

definition rename_organization ::
  "ObjectId \<times> org_doc \<Rightarrow> ObjectId \<Rightarrow> string \<Rightarrow> string \<Rightarrow> 'd database \<Rightarrow> 'd database" where
  "rename_organization org admin_oid target_org_name new_org_name db =
     (let new_collection_name = org_collection new_org_name;
          db1 = db\<lparr>organizations :=
                     update_one (has_id (fst org))
                       (\<lambda>g. g\<lparr>organization_name := new_org_name,
                               collection_name := new_collection_name\<rparr>)
                       (organizations db),
                   journal := journal db @
                     [Set_organization_name (fst org) new_org_name new_collection_name]\<rparr>;
          db2 = db1\<lparr>admins :=
                      update_one (has_id admin_oid) (\<lambda>a. a\<lparr>organization := new_org_name\<rparr>)
                        (admins db1),
                    journal := journal db1 @ [Set_admin_organization admin_oid new_org_name]\<rparr>
      in snd (rename_and_sync_collection target_org_name new_org_name db2))"

text \<open>Step 3 of \<^verbatim>\<open>update_organization\<close>: the credentials of the admin.\<close>

definition update_credentials ::
  "(string \<Rightarrow> string) \<Rightarrow> ObjectId \<Rightarrow> OrgUpdate \<Rightarrow> 'd database \<Rightarrow> 'd database" where
  "update_credentials hash_password admin_oid payload db =
     (if truthy (ou_email payload) \<or> truthy (ou_password payload)
      then db\<lparr>admins :=
                update_one (has_id admin_oid)
                  (\<lambda>a. a\<lparr>email := (if truthy (ou_email payload)
                                   then the (ou_email payload) else email a),
                          password := (if truthy (ou_password payload)
                                      then hash_password (the (ou_password payload))
                                      else password a)\<rparr>)
                  (admins db),
              journal := journal db @
                [Set_admin_fields admin_oid
                   (if truthy (ou_email payload) then ou_email payload else None)
                   (if truthy (ou_password payload)
                    then Some (hash_password (the (ou_password payload))) else None)]\<rparr>
      else db)"

text \<open>
  Steps 3 and 4 of \<^verbatim>\<open>update_organization\<close>, which both branches of step 2 reach:
  the credentials are written, then the organization is read back under the name that
  \<^verbatim>\<open>target_org_name\<close> holds by then. Subscripting \<^verbatim>\<open>None\<close> raises \<^verbatim>\<open>TypeError\<close>.
\<close>

definition credentials_and_fetch ::
  "(string \<Rightarrow> string) \<Rightarrow> ObjectId \<Rightarrow> OrgUpdate \<Rightarrow> string \<Rightarrow> 'd database \<Rightarrow>
   (error + ObjectId \<times> org_doc) \<times> 'd database" where
  "credentials_and_fetch hash_password admin_oid payload target_org_name db =
     (let db' = update_credentials hash_password admin_oid payload db in
      case find_one (named target_org_name) (organizations db') of
        None \<Rightarrow> (Inl TypeError, db')
      | Some updated_org \<Rightarrow> (Inr updated_org, db'))"

definition update_organization ::
  "(string \<Rightarrow> string) \<Rightarrow> current_admin \<Rightarrow> OrgUpdate \<Rightarrow> 'd database \<Rightarrow>
   (error + ObjectId \<times> org_doc) \<times> 'd database" where
  "update_organization hash_password admin payload db =
     (let target_org_name = tok_org_id admin in
      case find_one (named target_org_name) (organizations db) of
        None \<Rightarrow> (Inl (HTTPException 404 ''Organization not found''), db)
      | Some org \<Rightarrow>
          (let new_org_name = strip_lower (ou_organization_name payload) in
           if new_org_name \<noteq> target_org_name
           then
             (case find_one (named new_org_name) (organizations db) of
                Some existing \<Rightarrow>
                  (Inl (HTTPException 400 ''New organization name already exists''), db)
              | None \<Rightarrow>
                  credentials_and_fetch hash_password (tok_admin_id admin) payload new_org_name
                    (rename_organization org (tok_admin_id admin)
                       target_org_name new_org_name db))
           else
             credentials_and_fetch hash_password (tok_admin_id admin) payload
               target_org_name db))"

definition delete_organization ::
  "string \<Rightarrow> current_admin \<Rightarrow> 'd database \<Rightarrow> (error + string \<times> string) \<times> 'd database" where
  "delete_organization name admin db =
     (if tok_org_id admin \<noteq> strip_lower name
      then (Inl (HTTPException 403 ''You are not authorized to delete this organization''), db)
      else
        (let org_name = strip_lower name in
         case find_one (named org_name) (organizations db) of
           None \<Rightarrow> (Inl (HTTPException 404 ''Organization not found''), db)
         | Some org \<Rightarrow>
             (let db1 = snd (drop_org_collection org_name db);
                  db2 = db1\<lparr>admins := delete_one (has_id (admin_id (snd org))) (admins db1),
                            journal := journal db1 @ [Delete_admin (admin_id (snd org))]\<rparr>;
                  db3 = db2\<lparr>organizations :=
                              delete_one (\<lambda>d. named org_name (snd d)) (organizations db2),
                            journal := journal db2 @ [Delete_organization org_name]\<rparr>
              in (Inr (''deleted'', org_name), db3))))"

subsection \<open>\<^verbatim>\<open>admin_login\<close>\<close>

definition admin_login ::
  "(string \<Rightarrow> string \<Rightarrow> bool) \<Rightarrow> AdminLogin \<Rightarrow> 'd database \<Rightarrow> error + current_admin" where
  "admin_login verify_password payload db =
     (case find_one (\<lambda>a. email a = al_email payload) (admins db) of
        None \<Rightarrow> Inl (HTTPException 401 ''Invalid credentials'')
      | Some adm \<Rightarrow>
          if \<not> verify_password (al_password payload) (password (snd adm))
          then Inl (HTTPException 401 ''Invalid credentials'')
          else
            (case find_one (\<lambda>g. admin_id g = fst adm) (organizations db) of
               None \<Rightarrow> Inl (HTTPException 401 ''Organization linkage error'')
             | Some org \<Rightarrow>
                 Inr \<lparr>tok_admin_id = fst adm, tok_org_id = organization_name (snd org)\<rparr>))"

subsection \<open>The lifecycle as a transition system\<close>

text \<open>
  One request to the service. \<open>step\<close> runs it and keeps the database it leaves,
  whether the request succeeded or raised; \<open>run\<close> serves a list of requests from the
  empty database, so its values are the reachable states.
\<close>

datatype request =
    Create nat OrgCreate
  | Read string
  | Update current_admin OrgUpdate
  | Delete string current_admin

fun step :: "(string \<Rightarrow> string) \<Rightarrow> 'd database \<Rightarrow> request \<Rightarrow> 'd database" where
  "step hash_password db (Create utcnow payload) =
     snd (create_organization hash_password utcnow payload db)"
| "step hash_password db (Read name) = snd (get_organization name db)"
| "step hash_password db (Update admin payload) =
     snd (update_organization hash_password admin payload db)"
| "step hash_password db (Delete name admin) = snd (delete_organization name admin db)"

definition run :: "(string \<Rightarrow> string) \<Rightarrow> request list \<Rightarrow> 'd database" where
  "run hash_password requests = foldl (step hash_password) empty_database requests"

text \<open>
  The predicate on the registry: every record's collection name is \<^verbatim>\<open>org_\<close> followed by
  its name, every stored name is its own normal form, and no two records share a name.
\<close>

definition registry_ok :: "'d database \<Rightarrow> bool" where
  "registry_ok db =
     (list_all (\<lambda>d. collection_name (snd d) = org_collection (organization_name (snd d))
                   \<and> strip_lower (organization_name (snd d)) = organization_name (snd d))
        (organizations db)
      \<and> distinct (map (\<lambda>d. organization_name (snd d)) (organizations db)))"

text \<open>
  What the store guarantees of \<^verbatim>\<open>_id\<close>: within a collection no two documents share
  one, and every id in use was drawn from the counter.
\<close>

definition ids_ok :: "'d database \<Rightarrow> bool" where
  "ids_ok db =
     (distinct (map fst (organizations db))
      \<and> distinct (map fst (admins db))
      \<and> list_all (\<lambda>i. i < next_oid db) (map fst (organizations db))
      \<and> list_all (\<lambda>i. i < next_oid db) (map fst (admins db)))"

subsection \<open>A sample run\<close>

definition sample_hash :: "string \<Rightarrow> string" where
  "sample_hash pw = ''hash:'' @ pw"

definition sample_verify :: "string \<Rightarrow> string \<Rightarrow> bool" where
  "sample_verify pw hashed = (hashed = sample_hash pw)"

definition acme :: OrgCreate where
  "acme = \<lparr>oc_organization_name = ''Acme'', oc_email = ''a@x.com'', oc_password = ''secret1''\<rparr>"

definition other :: OrgCreate where
  "other = \<lparr>oc_organization_name = ''other'', oc_email = ''o@x.com'', oc_password = ''secret2''\<rparr>"

definition acme_token :: current_admin where
  "acme_token = \<lparr>tok_admin_id = 0, tok_org_id = ''acme''\<rparr>"

text \<open>The database after \<^verbatim>\<open>POST /org/create\<close> for Acme, and after a second one for other.\<close>

definition acme_db :: "string database" where
  "acme_db = snd (create_organization sample_hash 7 acme empty_database)"

definition two_db :: "string database" where
  "two_db = snd (create_organization sample_hash 8 other acme_db)"

text \<open>The same with two documents stored in the collection of Acme.\<close>

definition acme_data_db :: "string database" where
  "acme_data_db = acme_db\<lparr>collections := (collections acme_db)(''org_acme'' \<mapsto> [''d1'', ''d2''])\<rparr>"

definition rename_to :: "string \<Rightarrow> OrgUpdate" where
  "rename_to name = \<lparr>ou_organization_name = name, ou_email = None, ou_password = None\<rparr>"

definition other_token :: current_admin where
  "other_token = \<lparr>tok_admin_id = 2, tok_org_id = ''other''\<rparr>"

text \<open>Acme renamed to acme2 by its admin, with the token of the login before.\<close>

definition renamed_db :: "string database" where
  "renamed_db =
     snd (update_organization sample_hash acme_token (rename_to ''Acme2'') acme_data_db)"

section \<open>Facts about the model\<close>

subsection \<open>The normal form of a name\<close>

lemma lower_char_range: "lower_char c = c \<or> lower_char c \<in> set lowercase"
  by (simp add: lower_char_def lowercase_def)

lemma lowercase_all: "list_all (\<lambda>d. lower_char d = d \<and> \<not> isspace d) lowercase"
  by (simp add: lower_char_def lowercase_def isspace_def whitespace_def)

lemma whitespace_all: "list_all (\<lambda>c. lower_char c = c) whitespace"
  by (simp add: lower_char_def whitespace_def)

lemma lower_char_idem: "lower_char (lower_char c) = lower_char c"
  using lower_char_range [of c] lowercase_all by (auto simp: list_all_iff)

lemma isspace_lower_char: "isspace (lower_char c) = isspace c"
  using lower_char_range [of c] lowercase_all whitespace_all
  by (auto simp: list_all_iff isspace_def)

lemma lower_idem: "lower (lower s) = lower s"
  by (simp add: lower_def lower_char_idem)

lemma dropWhile_isspace_lower: "dropWhile isspace (lower s) = lower (dropWhile isspace s)"
  by (induction s) (simp_all add: lower_def isspace_lower_char)

lemma rev_lower: "rev (lower s) = lower (rev s)"
  by (simp add: lower_def rev_map)

lemma strip_lower_commute: "strip (lower s) = lower (strip s)"
  by (simp add: strip_def dropWhile_isspace_lower rev_lower)

lemma dropWhile_rev_keep:
  assumes "dropWhile P s = s"
  shows "dropWhile P (rev (dropWhile P (rev s))) = rev (dropWhile P (rev s))"
proof (cases s)
  case Nil
  then show ?thesis by simp
next
  case (Cons x xs)
  have nx: "\<not> P x"
  proof
    assume "P x"
    then have "dropWhile P s = dropWhile P xs" using Cons by simp
    then have "length s \<le> length xs" using assms length_dropWhile_le [of P xs] by simp
    then show False using Cons by simp
  qed
  then have "dropWhile P (rev xs @ [x]) = dropWhile P (rev xs) @ [x]"
    by (simp add: dropWhile_append)
  then have "rev (dropWhile P (rev s)) = x # rev (dropWhile P (rev xs))"
    using Cons by simp
  then show ?thesis using nx by simp
qed

lemma strip_idem: "strip (strip s) = strip s"
  unfolding strip_def by (simp add: dropWhile_rev_keep)

lemma strip_lower_idem: "strip_lower (strip_lower name) = strip_lower name"
  by (simp add: strip_lower_def strip_lower_commute strip_idem lower_idem)

lemma org_collection_inj: "org_collection a = org_collection b \<longleftrightarrow> a = b"
  by (simp add: org_collection_def)

lemmas strip_lower_eval =
  strip_lower_def strip_def lower_def lower_char_def isspace_def whitespace_def

lemmas store_eval =
  find_one_def named_def has_id_def org_collection_def create_org_collection_def
  drop_org_collection_def aggregate_out_def drop_collection_def
  rename_and_sync_collection_def admins_insert_one_def organizations_insert_one_def
  empty_database_def domIff

lemmas service_eval =
  create_organization_def get_organization_def update_organization_def
  delete_organization_def rename_organization_def update_credentials_def
  credentials_and_fetch_def Let_def

subsection \<open>\<^verbatim>\<open>find_one\<close>, \<^verbatim>\<open>update_one\<close>, \<^verbatim>\<open>delete_one\<close>\<close>

lemma find_one_None: "find_one q docs = None \<longleftrightarrow> (\<forall>d \<in> set docs. \<not> q (snd d))"
  by (auto simp: find_one_def find_None_iff)

lemma find_one_Some: "find_one q docs = Some d \<Longrightarrow> d \<in> set docs \<and> q (snd d)"
  by (auto simp: find_one_def find_Some_iff)


lemma ids_update_one: "map fst (update_one q f docs) = map fst docs"
  by (induction docs) simp_all

lemma list_all_update_one:
  "list_all P docs \<Longrightarrow> (\<And>d. P d \<Longrightarrow> q d \<Longrightarrow> P (fst d, f (snd d))) \<Longrightarrow>
   list_all P (update_one q f docs)"
  by (induction docs) simp_all

lemma map_update_one_same:
  "(\<And>x. g (f x) = g x) \<Longrightarrow> map (\<lambda>d. g (snd d)) (update_one q f docs) = map (\<lambda>d. g (snd d)) docs"
  by (induction docs) simp_all

lemma update_one_other:
  "d \<in> set docs \<Longrightarrow> \<not> q d \<Longrightarrow> d \<in> set (update_one q f docs)"
  by (induction docs) auto

lemma find_update_one_id:
  "find (has_id i) (update_one (has_id i) f docs) =
     map_option (\<lambda>d. (fst d, f (snd d))) (find (has_id i) docs)"
  by (induction docs) (simp_all add: has_id_def)

lemma names_update_one:
  "set (map (\<lambda>d. organization_name (snd d))
          (update_one q (\<lambda>g. g\<lparr>organization_name := n, collection_name := c\<rparr>) docs))
   \<subseteq> insert n (set (map (\<lambda>d. organization_name (snd d)) docs))"
  by (induction docs) auto

lemma distinct_names_update_one:
  "distinct (map (\<lambda>d. organization_name (snd d)) docs) \<Longrightarrow>
   n \<notin> set (map (\<lambda>d. organization_name (snd d)) docs) \<Longrightarrow>
   distinct (map (\<lambda>d. organization_name (snd d))
     (update_one q (\<lambda>g. g\<lparr>organization_name := n, collection_name := c\<rparr>) docs))"
proof (induction docs)
  case Nil
  then show ?case by simp
next
  case (Cons d docs)
  show ?case
  proof (cases "q d")
    case True
    then show ?thesis using Cons.prems by simp
  next
    case False
    have "organization_name (snd d) \<notin>
      set (map (\<lambda>d. organization_name (snd d))
        (update_one q (\<lambda>g. g\<lparr>organization_name := n, collection_name := c\<rparr>) docs))"
      using names_update_one [where q = q and n = n and c = c and docs = docs] Cons.prems
      by auto
    then show ?thesis using False Cons by simp
  qed
qed

lemma set_delete_one: "set (delete_one q docs) \<subseteq> set docs"
  by (induction docs) auto

lemma list_all_delete_one: "list_all P docs \<Longrightarrow> list_all P (delete_one q docs)"
  using set_delete_one [of q docs] by (auto simp: list_all_iff)

lemma distinct_delete_one: "distinct (map g docs) \<Longrightarrow> distinct (map g (delete_one q docs))"
proof (induction docs)
  case Nil
  then show ?case by simp
next
  case (Cons d docs)
  then show ?case using set_delete_one [of q docs] by auto
qed

lemma delete_one_removes:
  "distinct (map g docs) \<Longrightarrow> \<forall>d \<in> set (delete_one (\<lambda>d. g d = k) docs). g d \<noteq> k"
proof (induction docs)
  case Nil
  then show ?case by simp
next
  case (Cons d docs)
  then show ?case by (cases "g d = k") (auto simp: rev_image_eqI)
qed

lemma delete_one_keeps: "d \<in> set docs \<Longrightarrow> \<not> q d \<Longrightarrow> d \<in> set (delete_one q docs)"
  by (induction docs) auto

subsection \<open>What each step reads and writes\<close>

lemma update_credentials_frame:
  "organizations (update_credentials h i p db) = organizations db"
  "collections (update_credentials h i p db) = collections db"
  "next_oid (update_credentials h i p db) = next_oid db"
  "map fst (admins (update_credentials h i p db)) = map fst (admins db)"
  "map (\<lambda>d. organization (snd d)) (admins (update_credentials h i p db)) =
     map (\<lambda>d. organization (snd d)) (admins db)"
  by (simp_all add: update_credentials_def ids_update_one map_update_one_same)

lemma rename_and_sync_frame:
  "organizations (snd (rename_and_sync_collection t n db)) = organizations db"
  "admins (snd (rename_and_sync_collection t n db)) = admins db"
  "next_oid (snd (rename_and_sync_collection t n db)) = next_oid db"
  by (simp_all add: rename_and_sync_collection_def drop_collection_def aggregate_out_def Let_def
      split: option.splits)

lemma rename_and_sync_collections:
  "collections (snd (rename_and_sync_collection t n db)) =
     (case collections db (org_collection t) of
        None \<Rightarrow> collections db
      | Some docs \<Rightarrow> (collections db)(org_collection n \<mapsto> docs, org_collection t := None))"
  by (simp add: rename_and_sync_collection_def drop_collection_def aggregate_out_def Let_def domIff
      split: option.splits)

lemma rename_organization_frame:
  "organizations (rename_organization org i t n db) =
     update_one (has_id (fst org))
       (\<lambda>g. g\<lparr>organization_name := n, collection_name := org_collection n\<rparr>) (organizations db)"
  "admins (rename_organization org i t n db) =
     update_one (has_id i) (\<lambda>a. a\<lparr>organization := n\<rparr>) (admins db)"
  "next_oid (rename_organization org i t n db) = next_oid db"
  "collections (rename_organization org i t n db) =
     (case collections db (org_collection t) of
        None \<Rightarrow> collections db
      | Some docs \<Rightarrow> (collections db)(org_collection n \<mapsto> docs, org_collection t := None))"
  by (simp_all add: rename_organization_def Let_def rename_and_sync_frame
      rename_and_sync_collections split: option.splits)

lemma create_org_collection_frame:
  "organizations (snd (create_org_collection n db)) = organizations db"
  "admins (snd (create_org_collection n db)) = admins db"
  "next_oid (snd (create_org_collection n db)) = next_oid db"
  by (simp_all add: create_org_collection_def Let_def)

lemma drop_org_collection_frame:
  "organizations (snd (drop_org_collection n db)) = organizations db"
  "admins (snd (drop_org_collection n db)) = admins db"
  "next_oid (snd (drop_org_collection n db)) = next_oid db"
  "collections (snd (drop_org_collection n db)) (org_collection n) = None"
  by (auto simp: drop_org_collection_def Let_def domIff)

text \<open>The outcomes of the four operations, one equation for each path.\<close>

lemma create_exists:
  "find_one (named (strip_lower (oc_organization_name p))) (organizations db) = Some x \<Longrightarrow>
   create_organization h t p db = (Inl (HTTPException 400 ''Organization already exists''), db)"
  by (simp add: create_organization_def)

lemma create_fresh:
  assumes "find_one (named (strip_lower (oc_organization_name p))) (organizations db) = None"
  shows "fst (create_organization h t p db) =
           Inr \<lparr>out_organization_name = strip_lower (oc_organization_name p),
                out_collection_name = org_collection (strip_lower (oc_organization_name p)),
                out_admin_id = next_oid db\<rparr>"
    and "organizations (snd (create_organization h t p db)) =
           organizations db @
             [(Suc (next_oid db),
               \<lparr>organization_name = strip_lower (oc_organization_name p),
                collection_name = org_collection (strip_lower (oc_organization_name p)),
                admin_id = next_oid db, created_at = t\<rparr>)]"
    and "admins (snd (create_organization h t p db)) =
           admins db @
             [(next_oid db,
               \<lparr>email = oc_email p, password = h (oc_password p), role = ''admin'',
                organization = strip_lower (oc_organization_name p)\<rparr>)]"
    and "next_oid (snd (create_organization h t p db)) = Suc (Suc (next_oid db))"
  using assms
  by (simp_all add: create_organization_def Let_def admins_insert_one_def
      organizations_insert_one_def create_org_collection_frame split: prod.splits)

lemma update_missing:
  "find_one (named (tok_org_id a)) (organizations db) = None \<Longrightarrow>
   update_organization h a p db = (Inl (HTTPException 404 ''Organization not found''), db)"
  by (simp add: update_organization_def)

lemma update_taken:
  "find_one (named (tok_org_id a)) (organizations db) = Some org \<Longrightarrow>
   strip_lower (ou_organization_name p) \<noteq> tok_org_id a \<Longrightarrow>
   find_one (named (strip_lower (ou_organization_name p))) (organizations db) = Some x \<Longrightarrow>
   update_organization h a p db =
     (Inl (HTTPException 400 ''New organization name already exists''), db)"
  by (simp add: update_organization_def)

lemma update_rename:
  "find_one (named (tok_org_id a)) (organizations db) = Some org \<Longrightarrow>
   strip_lower (ou_organization_name p) \<noteq> tok_org_id a \<Longrightarrow>
   find_one (named (strip_lower (ou_organization_name p))) (organizations db) = None \<Longrightarrow>
   update_organization h a p db =
     credentials_and_fetch h (tok_admin_id a) p (strip_lower (ou_organization_name p))
       (rename_organization org (tok_admin_id a) (tok_org_id a)
          (strip_lower (ou_organization_name p)) db)"
  by (simp add: update_organization_def Let_def)

lemma update_same:
  "find_one (named (tok_org_id a)) (organizations db) = Some org \<Longrightarrow>
   strip_lower (ou_organization_name p) = tok_org_id a \<Longrightarrow>
   update_organization h a p db = credentials_and_fetch h (tok_admin_id a) p (tok_org_id a) db"
  by (simp add: update_organization_def)

lemma snd_credentials_and_fetch:
  "snd (credentials_and_fetch h i p n db) = update_credentials h i p db"
  by (simp add: credentials_and_fetch_def Let_def split: option.splits)

lemma update_outcomes:
  "snd (update_organization h a p db) = db
   \<or> (\<exists>org. find_one (named (tok_org_id a)) (organizations db) = Some org
        \<and> strip_lower (ou_organization_name p) = tok_org_id a
        \<and> snd (update_organization h a p db) = update_credentials h (tok_admin_id a) p db)
   \<or> (\<exists>org. find_one (named (tok_org_id a)) (organizations db) = Some org
        \<and> strip_lower (ou_organization_name p) \<noteq> tok_org_id a
        \<and> find_one (named (strip_lower (ou_organization_name p))) (organizations db) = None
        \<and> snd (update_organization h a p db) =
            update_credentials h (tok_admin_id a) p
              (rename_organization org (tok_admin_id a) (tok_org_id a)
                 (strip_lower (ou_organization_name p)) db))"
proof (cases "find_one (named (tok_org_id a)) (organizations db)")
  case None
  then show ?thesis by (simp add: update_missing)
next
  case (Some org)
  show ?thesis
  proof (cases "strip_lower (ou_organization_name p) = tok_org_id a")
    case True
    then show ?thesis using Some by (simp add: update_same snd_credentials_and_fetch)
  next
    case False
    then show ?thesis using Some
      by (cases "find_one (named (strip_lower (ou_organization_name p))) (organizations db)")
        (simp_all add: update_taken update_rename snd_credentials_and_fetch)
  qed
qed

lemma delete_forbidden:
  "tok_org_id a \<noteq> strip_lower name \<Longrightarrow>
   delete_organization name a db =
     (Inl (HTTPException 403 ''You are not authorized to delete this organization''), db)"
  by (simp add: delete_organization_def)

lemma delete_missing:
  "tok_org_id a = strip_lower name \<Longrightarrow>
   find_one (named (strip_lower name)) (organizations db) = None \<Longrightarrow>
   delete_organization name a db = (Inl (HTTPException 404 ''Organization not found''), db)"
  by (simp add: delete_organization_def)

lemma delete_found:
  assumes "tok_org_id a = strip_lower name"
    and "find_one (named (strip_lower name)) (organizations db) = Some org"
  shows "fst (delete_organization name a db) = Inr (''deleted'', strip_lower name)"
    and "organizations (snd (delete_organization name a db)) =
           delete_one (\<lambda>d. named (strip_lower name) (snd d)) (organizations db)"
    and "admins (snd (delete_organization name a db)) =
           delete_one (has_id (admin_id (snd org))) (admins db)"
    and "collections (snd (delete_organization name a db)) (org_collection (strip_lower name)) = None"
    and "next_oid (snd (delete_organization name a db)) = next_oid db"
  using assms by (simp_all add: delete_organization_def Let_def drop_org_collection_frame)

subsection \<open>The registry predicate is an invariant\<close>

lemma registry_ok_create: "registry_ok db \<Longrightarrow> registry_ok (snd (create_organization h t p db))"
proof (cases "find_one (named (strip_lower (oc_organization_name p))) (organizations db)")
  case None
  assume "registry_ok db"
  moreover have "strip_lower (oc_organization_name p)
      \<notin> set (map (\<lambda>d. organization_name (snd d)) (organizations db))"
    using None by (auto simp: find_one_None named_def)
  ultimately show ?thesis
    by (simp add: registry_ok_def create_fresh [OF None] strip_lower_idem)
next
  case (Some x)
  assume "registry_ok db"
  then show ?thesis by (simp add: create_exists [OF Some])
qed

lemma registry_ok_rename:
  assumes "registry_ok db"
    and "find_one (named (strip_lower name)) (organizations db) = None"
  shows "registry_ok (rename_organization org i t (strip_lower name) db)"
proof -
  have fresh: "strip_lower name \<notin> set (map (\<lambda>d. organization_name (snd d)) (organizations db))"
    using assms(2) by (auto simp: find_one_None named_def)
  have "list_all (\<lambda>d. collection_name (snd d) = org_collection (organization_name (snd d))
                   \<and> strip_lower (organization_name (snd d)) = organization_name (snd d))
          (update_one (has_id (fst org))
             (\<lambda>g. g\<lparr>organization_name := strip_lower name,
                     collection_name := org_collection (strip_lower name)\<rparr>)
             (organizations db))"
    using assms(1) by (intro list_all_update_one) (simp_all add: registry_ok_def strip_lower_idem)
  moreover have "distinct (map (\<lambda>d. organization_name (snd d))
          (update_one (has_id (fst org))
             (\<lambda>g. g\<lparr>organization_name := strip_lower name,
                     collection_name := org_collection (strip_lower name)\<rparr>)
             (organizations db)))"
    using assms(1) fresh by (intro distinct_names_update_one) (simp_all add: registry_ok_def)
  ultimately show ?thesis
    by (simp add: registry_ok_def rename_organization_frame)
qed

lemma registry_ok_credentials:
  "registry_ok db \<Longrightarrow> registry_ok (update_credentials h i p db)"
  by (simp add: registry_ok_def update_credentials_frame)

lemma registry_ok_update: "registry_ok db \<Longrightarrow> registry_ok (snd (update_organization h a p db))"
  using update_outcomes [of h a p db]
  by (auto simp: registry_ok_credentials registry_ok_rename)

lemma registry_ok_delete: "registry_ok db \<Longrightarrow> registry_ok (snd (delete_organization name a db))"
proof (cases "tok_org_id a = strip_lower name")
  case False
  assume "registry_ok db"
  then show ?thesis using False by (simp add: delete_forbidden)
next
  case True
  assume ok: "registry_ok db"
  show ?thesis
  proof (cases "find_one (named (strip_lower name)) (organizations db)")
    case None
    then show ?thesis using ok True by (simp add: delete_missing)
  next
    case (Some org)
    show ?thesis using ok
      by (simp add: registry_ok_def delete_found [OF True Some] list_all_delete_one
          distinct_delete_one)
  qed
qed

lemma registry_ok_get: "snd (get_organization name db) = db"
  by (simp add: get_organization_def split: option.splits)

lemma registry_ok_step: "registry_ok db \<Longrightarrow> registry_ok (step h db r)"
  by (cases r)
    (simp_all add: registry_ok_create registry_ok_update registry_ok_delete registry_ok_get)

lemma registry_ok_foldl: "registry_ok db \<Longrightarrow> registry_ok (foldl (step h) db rs)"
  by (induction rs arbitrary: db) (simp_all add: registry_ok_step)

lemma registry_ok_empty: "registry_ok empty_database"
  by (simp add: registry_ok_def empty_database_def)

subsection \<open>Ids stay unique\<close>

lemma ids_ok_create: "ids_ok db \<Longrightarrow> ids_ok (snd (create_organization h t p db))"
proof (cases "find_one (named (strip_lower (oc_organization_name p))) (organizations db)")
  case None
  assume "ids_ok db"
  then show ?thesis
    by (auto simp: ids_ok_def create_fresh [OF None] list_all_iff)
next
  case (Some x)
  assume "ids_ok db"
  then show ?thesis by (simp add: create_exists [OF Some])
qed

lemma ids_ok_credentials: "ids_ok db \<Longrightarrow> ids_ok (update_credentials h i p db)"
  by (simp add: ids_ok_def update_credentials_frame)

lemma ids_ok_rename: "ids_ok db \<Longrightarrow> ids_ok (rename_organization org i t n db)"
  by (simp add: ids_ok_def rename_organization_frame ids_update_one)

lemma ids_ok_update: "ids_ok db \<Longrightarrow> ids_ok (snd (update_organization h a p db))"
  using update_outcomes [of h a p db] by (auto simp: ids_ok_credentials ids_ok_rename)

lemma ids_ok_delete: "ids_ok db \<Longrightarrow> ids_ok (snd (delete_organization name a db))"
proof (cases "tok_org_id a = strip_lower name")
  case False
  assume "ids_ok db"
  then show ?thesis using False by (simp add: delete_forbidden)
next
  case True
  assume ok: "ids_ok db"
  show ?thesis
  proof (cases "find_one (named (strip_lower name)) (organizations db)")
    case None
    then show ?thesis using ok True by (simp add: delete_missing)
  next
    case (Some org)
    show ?thesis using ok
      by (simp add: ids_ok_def delete_found [OF True Some] distinct_delete_one
          list.pred_map list_all_delete_one)
  qed
qed

lemma ids_ok_step: "ids_ok db \<Longrightarrow> ids_ok (step h db r)"
  by (cases r) (simp_all add: ids_ok_create ids_ok_update ids_ok_delete registry_ok_get)

lemma ids_ok_foldl: "ids_ok db \<Longrightarrow> ids_ok (foldl (step h) db rs)"
  by (induction rs arbitrary: db) (simp_all add: ids_ok_step)

lemma ids_ok_empty: "ids_ok empty_database"
  by (simp add: ids_ok_def empty_database_def)

lemma ids_ok_run: "ids_ok (run h rs)"
  by (simp add: run_def ids_ok_foldl ids_ok_empty)

subsection \<open>The sample run, evaluated\<close>

lemma acme_db_eval:
  "acme_db =
     \<lparr>organizations =
        [(1, \<lparr>organization_name = ''acme'', collection_name = ''org_acme'',
              admin_id = 0, created_at = 7\<rparr>)],
      admins =
        [(0, \<lparr>email = ''a@x.com'', password = ''hash:secret1'', role = ''admin'',
              organization = ''acme''\<rparr>)],
      collections = [''org_acme'' \<mapsto> []],
      next_oid = 2,
      journal = [Create_collection ''org_acme'', Insert_admin 0, Insert_organization 1]\<rparr>"
  by (simp add: acme_db_def acme_def sample_hash_def service_eval store_eval strip_lower_eval)

lemma two_db_eval:
  "two_db =
     \<lparr>organizations =
        [(1, \<lparr>organization_name = ''acme'', collection_name = ''org_acme'',
              admin_id = 0, created_at = 7\<rparr>),
         (3, \<lparr>organization_name = ''other'', collection_name = ''org_other'',
              admin_id = 2, created_at = 8\<rparr>)],
      admins =
        [(0, \<lparr>email = ''a@x.com'', password = ''hash:secret1'', role = ''admin'',
              organization = ''acme''\<rparr>),
         (2, \<lparr>email = ''o@x.com'', password = ''hash:secret2'', role = ''admin'',
              organization = ''other''\<rparr>)],
      collections = [''org_acme'' \<mapsto> [], ''org_other'' \<mapsto> []],
      next_oid = 4,
      journal = [Create_collection ''org_acme'', Insert_admin 0, Insert_organization 1,
                 Create_collection ''org_other'', Insert_admin 2, Insert_organization 3]\<rparr>"
  by (simp add: two_db_def other_def acme_db_eval sample_hash_def service_eval store_eval
      strip_lower_eval)

lemma renamed_db_eval:
  "renamed_db =
     \<lparr>organizations =
        [(1, \<lparr>organization_name = ''acme2'', collection_name = ''org_acme2'',
              admin_id = 0, created_at = 7\<rparr>)],
      admins =
        [(0, \<lparr>email = ''a@x.com'', password = ''hash:secret1'', role = ''admin'',
              organization = ''acme2''\<rparr>)],
      collections = [''org_acme2'' \<mapsto> [''d1'', ''d2'']],
      next_oid = 2,
      journal = [Create_collection ''org_acme'', Insert_admin 0, Insert_organization 1,
                 Set_organization_name 1 ''acme2'' ''org_acme2'',
                 Set_admin_organization 0 ''acme2'',
                 Aggregate_out ''org_acme'' ''org_acme2'', Drop_collection ''org_acme'']\<rparr>"
  by (simp add: renamed_db_def acme_data_db_def acme_db_eval acme_token_def rename_to_def
      service_eval store_eval strip_lower_eval fun_upd_twist)

section \<open>The claims\<close>

text \<open>
  C5. In every state that the lifecycle operations reach from the empty database, each
  record of the registry has \<^verbatim>\<open>collection_name\<close> equal to \<^verbatim>\<open>org_\<close> followed by its
  \<^verbatim>\<open>organization_name\<close>, which is in normal form, and no two records share a name;
  and each of create, read, update and delete, run on any database with that property,
  leaves it with that property.
\<close>

theorem registry_invariant:
  "list_all (\<lambda>d. collection_name (snd d) = ''org_'' @ organization_name (snd d)
                \<and> strip_lower (organization_name (snd d)) = organization_name (snd d))
     (organizations (run h rs :: 'd database))
   \<and> distinct (map (\<lambda>d. organization_name (snd d)) (organizations (run h rs :: 'd database)))
   \<and> (registry_ok db \<longrightarrow> registry_ok (step h db r))"
proof -
  have "registry_ok (run h rs :: 'd database)"
    by (simp add: run_def registry_ok_foldl registry_ok_empty)
  then have reached:
    "list_all (\<lambda>d. collection_name (snd d) = ''org_'' @ organization_name (snd d)
                  \<and> strip_lower (organization_name (snd d)) = organization_name (snd d))
       (organizations (run h rs :: 'd database))
     \<and> distinct (map (\<lambda>d. organization_name (snd d))
          (organizations (run h rs :: 'd database)))"
    by (simp add: registry_ok_def org_collection_def)
  have kept: "registry_ok db \<longrightarrow> registry_ok (step h db r)"
    by (simp add: registry_ok_step)
  from reached kept show ?thesis by blast
qed

theorem registry_invariant_witness:
  "registry_ok two_db
   \<and> registry_ok (step sample_hash two_db (Update acme_token (rename_to '' Acme Corp '')))
   \<and> map (\<lambda>d. organization_name (snd d))
        (organizations
          (run sample_hash [Create 7 acme, Create 8 other, Create 9 acme] :: string database))
      = [''acme'', ''other'']"
proof -
  have "registry_ok two_db"
    by (simp add: registry_ok_def two_db_eval org_collection_def strip_lower_eval)
  moreover have "run sample_hash [Create 7 acme, Create 8 other, Create 9 acme] = two_db"
    by (simp add: run_def two_db_eval acme_def other_def sample_hash_def service_eval
        store_eval strip_lower_eval)
  moreover have "map (\<lambda>d. organization_name (snd d)) (organizations two_db)
      = [''acme'', ''other'']"
    by (simp add: two_db_eval)
  ultimately show ?thesis
    using registry_invariant [where ?'d = string and h = sample_hash and rs = "[]"
        and db = two_db and r = "Update acme_token (rename_to '' Acme Corp '')"]
    by simp
qed

text \<open>
  C9. When the registry holds no record under the tenant name of the claim,
  \<^verbatim>\<open>update_organization\<close> raises 404 (NotFound) and the database is as it was. The example
  is the token of a login made before a rename, used after it.
\<close>

theorem stale_claim_not_found:
  "find_one (named (tok_org_id a)) (organizations db) = None \<Longrightarrow>
   update_organization h a p db = (Inl (HTTPException 404 ''Organization not found''), db)"
  by (simp add: update_organization_def)

theorem stale_claim_not_found_witness:
  "admin_login sample_verify \<lparr>al_email = ''a@x.com'', al_password = ''secret1''\<rparr> acme_data_db
     = Inr acme_token
   \<and> renamed_db = snd (update_organization sample_hash acme_token (rename_to ''Acme2'') acme_data_db)
   \<and> find_one (named (tok_org_id acme_token)) (organizations renamed_db) = None
   \<and> update_organization sample_hash acme_token (rename_to ''acme3'') renamed_db
     = (Inl (HTTPException 404 ''Organization not found''), renamed_db)"
proof -
  have login: "admin_login sample_verify \<lparr>al_email = ''a@x.com'', al_password = ''secret1''\<rparr>
      acme_data_db = Inr acme_token"
    by (simp add: admin_login_def acme_data_db_def acme_db_eval acme_token_def find_one_def
        sample_verify_def sample_hash_def)
  have gone: "find_one (named (tok_org_id acme_token)) (organizations renamed_db) = None"
    by (simp add: renamed_db_eval acme_token_def find_one_def named_def)
  show ?thesis
    using login gone
      stale_claim_not_found [OF gone, of sample_hash "rename_to ''acme3''"]
    by (simp add: renamed_db_def)
qed

text \<open>
  C10. A request whose password is the empty string is served exactly as the same
  request without a password: the rename and the email it asks for are applied as
  they would be, and no admin's password hash changes.
\<close>

theorem empty_password_ignored:
  "update_organization h a (p\<lparr>ou_password := Some []\<rparr>) db
     = update_organization h a (p\<lparr>ou_password := None\<rparr>) db
   \<and> map (\<lambda>d. password (snd d))
       (admins (snd (update_organization h a (p\<lparr>ou_password := Some []\<rparr>) db)))
     = map (\<lambda>d. password (snd d)) (admins db)"
proof -
  have same: "update_credentials h i (p\<lparr>ou_password := Some []\<rparr>) x
      = update_credentials h i (p\<lparr>ou_password := None\<rparr>) x" for i and x :: "'a database"
    by (simp add: update_credentials_def)
  have first: "update_organization h a (p\<lparr>ou_password := Some []\<rparr>) db
      = update_organization h a (p\<lparr>ou_password := None\<rparr>) db"
    by (simp add: update_organization_def credentials_and_fetch_def Let_def same
        split: option.splits)
  have keep: "map (\<lambda>d. password (snd d))
        (admins (update_credentials h i (p\<lparr>ou_password := Some []\<rparr>) x))
      = map (\<lambda>d. password (snd d)) (admins x)" for i and x :: "'a database"
    by (simp add: update_credentials_def map_update_one_same)
  have link: "map (\<lambda>d. password (snd d)) (admins (rename_organization org i t n db))
      = map (\<lambda>d. password (snd d)) (admins db)" for org i t n
    by (simp add: rename_organization_frame map_update_one_same)
  have "map (\<lambda>d. password (snd d))
       (admins (snd (update_organization h a (p\<lparr>ou_password := Some []\<rparr>) db)))
     = map (\<lambda>d. password (snd d)) (admins db)"
    using update_outcomes [of h a "p\<lparr>ou_password := Some []\<rparr>" db]
    by (auto simp: keep link)
  with first show ?thesis by simp
qed

theorem empty_password_ignored_witness:
  "admins (snd (update_organization sample_hash acme_token
      \<lparr>ou_organization_name = ''Acme2'', ou_email = Some ''new@x.com'', ou_password = Some ''''\<rparr>
      acme_db))
   = [(0, \<lparr>email = ''new@x.com'', password = ''hash:secret1'', role = ''admin'',
           organization = ''acme2''\<rparr>)]"
  using empty_password_ignored [of sample_hash acme_token
      "\<lparr>ou_organization_name = ''Acme2'', ou_email = Some ''new@x.com'', ou_password = None\<rparr>"
      acme_db]
  by (simp add: acme_db_eval acme_token_def service_eval store_eval strip_lower_eval)

text \<open>
  C1. When \<^verbatim>\<open>update_organization\<close> succeeds on a request whose normalized name differs
  from the tenant of the claim: if the collection of the old name held the documents
  \<open>D\<close>, the collection of the new name holds exactly \<open>D\<close> afterwards and the collection
  of the old name is gone; if the old name had no collection, \<^verbatim>\<open>rename_and_sync_collection\<close>
  returns \<^verbatim>\<open>True\<close> with the database as it was, and the update leaves every collection
  as it was.
\<close>

theorem rename_migrates_collection:
  assumes "update_organization h a p db = (Inr u, db')"
    and "strip_lower (ou_organization_name p) \<noteq> tok_org_id a"
  shows "(\<forall>D. collections db (org_collection (tok_org_id a)) = Some D \<longrightarrow>
            collections db' (org_collection (strip_lower (ou_organization_name p))) = Some D
            \<and> collections db' (org_collection (tok_org_id a)) = None)
       \<and> (collections db (org_collection (tok_org_id a)) = None \<longrightarrow>
            rename_and_sync_collection (tok_org_id a) (strip_lower (ou_organization_name p)) db
              = (True, db)
            \<and> collections db' = collections db)"
proof -
  obtain org where org: "find_one (named (tok_org_id a)) (organizations db) = Some org"
    using assms(1) by (cases "find_one (named (tok_org_id a)) (organizations db)")
      (simp_all add: update_missing)
  have fresh: "find_one (named (strip_lower (ou_organization_name p))) (organizations db) = None"
    using assms org
    by (cases "find_one (named (strip_lower (ou_organization_name p))) (organizations db)")
      (simp_all add: update_taken)
  have "db' = snd (update_organization h a p db)"
    using assms(1) by simp
  then have db': "db' = update_credentials h (tok_admin_id a) p
      (rename_organization org (tok_admin_id a) (tok_org_id a)
         (strip_lower (ou_organization_name p)) db)"
    by (simp add: update_rename [OF org assms(2) fresh] snd_credentials_and_fetch)
  show ?thesis
    using assms(2)
    by (simp add: db' update_credentials_frame rename_organization_frame org_collection_inj
        rename_and_sync_collection_def domIff)
qed

theorem rename_migrates_collection_witness:
  "fst (update_organization sample_hash acme_token (rename_to ''Acme2'') acme_data_db)
     = Inr (1, \<lparr>organization_name = ''acme2'', collection_name = ''org_acme2'',
                admin_id = 0, created_at = 7\<rparr>)
   \<and> collections acme_data_db ''org_acme'' = Some [''d1'', ''d2'']
   \<and> collections renamed_db ''org_acme2'' = Some [''d1'', ''d2'']
   \<and> collections renamed_db ''org_acme'' = None"
proof -
  have run: "update_organization sample_hash acme_token (rename_to ''Acme2'') acme_data_db
      = (Inr (1, \<lparr>organization_name = ''acme2'', collection_name = ''org_acme2'',
                  admin_id = 0, created_at = 7\<rparr>), renamed_db)"
    by (simp add: renamed_db_eval acme_data_db_def acme_db_eval acme_token_def rename_to_def
        service_eval store_eval strip_lower_eval fun_upd_twist)
  have new: "strip_lower (ou_organization_name (rename_to ''Acme2'')) \<noteq> tok_org_id acme_token"
    by (simp add: rename_to_def acme_token_def strip_lower_eval)
  have held: "collections acme_data_db ''org_acme'' = Some [''d1'', ''d2'']"
    by (simp add: acme_data_db_def)
  show ?thesis
    using rename_migrates_collection [OF run new] held run
    by (simp add: org_collection_def acme_token_def rename_to_def strip_lower_eval)
qed





text \<open>
  C3. On a database whose registry names and whose ids are unique, as they are in every
  reachable state, a successful \<^verbatim>\<open>delete_organization\<close> leaves no registry record under
  the normalized name, no admin record with the id that the record stored, and no
  collection under the derived name; \<^verbatim>\<open>get_organization\<close> on the name then raises 404.
\<close>

theorem delete_removes_all:
  assumes "registry_ok db" and "ids_ok db"
    and "find_one (named (strip_lower name)) (organizations db) = Some org"
    and "delete_organization name a db = (Inr r, db')"
  shows "(\<forall>d \<in> set (organizations db'). organization_name (snd d) \<noteq> strip_lower name)
       \<and> (\<forall>d \<in> set (admins db'). fst d \<noteq> admin_id (snd org))
       \<and> collections db' (org_collection (strip_lower name)) = None
       \<and> get_organization name db'
           = (Inl (HTTPException 404 ''Organization not found''), db')"
proof -
  have auth: "tok_org_id a = strip_lower name"
    using assms(4) by (cases "tok_org_id a = strip_lower name") (simp_all add: delete_forbidden)
  have db': "db' = snd (delete_organization name a db)"
    using assms(4) by simp
  have "distinct (map (\<lambda>d. organization_name (snd d)) (organizations db))"
    using assms(1) by (simp add: registry_ok_def)
  from delete_one_removes [OF this, of "strip_lower name"]
  have orgs: "\<forall>d \<in> set (organizations db'). organization_name (snd d) \<noteq> strip_lower name"
    by (simp add: db' delete_found [OF auth assms(3)] named_def)
  have "distinct (map fst (admins db))"
    using assms(2) by (simp add: ids_ok_def)
  from delete_one_removes [OF this, of "admin_id (snd org)"]
  have adms: "\<forall>d \<in> set (admins db'). fst d \<noteq> admin_id (snd org)"
    by (simp add: db' delete_found [OF auth assms(3)] has_id_def [abs_def])
  have coll: "collections db' (org_collection (strip_lower name)) = None"
    by (simp add: db' delete_found [OF auth assms(3)])
  have "find_one (named (strip_lower name)) (organizations db') = None"
    using orgs by (simp add: find_one_None named_def)
  then have "get_organization name db'
      = (Inl (HTTPException 404 ''Organization not found''), db')"
    by (simp add: get_organization_def)
  with orgs adms coll show ?thesis by blast
qed

theorem delete_removes_all_witness:
  "registry_ok two_db \<and> ids_ok two_db
   \<and> delete_organization '' Other'' other_token two_db
     = (Inr (''deleted'', ''other''),
        two_db\<lparr>organizations := [(1, \<lparr>organization_name = ''acme'',
                    collection_name = ''org_acme'', admin_id = 0, created_at = 7\<rparr>)],
               admins := [(0, \<lparr>email = ''a@x.com'', password = ''hash:secret1'',
                    role = ''admin'', organization = ''acme''\<rparr>)],
               collections := [''org_acme'' \<mapsto> []],
               journal := journal two_db @ [Drop_collection ''org_other'', Delete_admin 2,
                    Delete_organization ''other'']\<rparr>)
   \<and> fst (get_organization ''other''
        (snd (delete_organization '' Other'' other_token two_db)))
     = Inl (HTTPException 404 ''Organization not found'')"
proof -
  have reg: "registry_ok two_db"
    by (simp add: registry_ok_def two_db_eval org_collection_def strip_lower_eval)
  have ids: "ids_ok two_db"
    by (simp add: ids_ok_def two_db_eval)
  have org: "find_one (named (strip_lower '' Other'')) (organizations two_db)
      = Some (3, \<lparr>organization_name = ''other'', collection_name = ''org_other'',
                  admin_id = 2, created_at = 8\<rparr>)"
    by (simp add: two_db_eval find_one_def named_def strip_lower_eval)
  have del: "delete_organization '' Other'' other_token two_db
     = (Inr (''deleted'', ''other''),
        two_db\<lparr>organizations := [(1, \<lparr>organization_name = ''acme'',
                    collection_name = ''org_acme'', admin_id = 0, created_at = 7\<rparr>)],
               admins := [(0, \<lparr>email = ''a@x.com'', password = ''hash:secret1'',
                    role = ''admin'', organization = ''acme''\<rparr>)],
               collections := [''org_acme'' \<mapsto> []],
               journal := journal two_db @ [Drop_collection ''org_other'', Delete_admin 2,
                    Delete_organization ''other'']\<rparr>)"
    by (simp add: two_db_eval other_token_def service_eval store_eval strip_lower_eval)
  have "get_organization '' Other'' (snd (delete_organization '' Other'' other_token two_db))
      = get_organization ''other'' (snd (delete_organization '' Other'' other_token two_db))"
    by (simp add: get_organization_def strip_lower_eval)
  then show ?thesis
    using reg ids del delete_removes_all [OF reg ids org del] by simp
qed







text \<open>
  C7, as the code has it. When the normalized new name is the tenant of the claim and
  that tenant is registered, \<^verbatim>\<open>update_organization\<close> returns its record and leaves the
  registry, every collection and the tenant link of every admin as they were; the admin
  with the id of the claim gets the email of the request if it is not empty and the
  hash of the password of the request if it is not empty, and keeps what it had
  otherwise.
\<close>

theorem same_name_update:
  assumes "find_one (named (tok_org_id a)) (organizations db) = Some org"
    and "strip_lower (ou_organization_name p) = tok_org_id a"
    and "update_organization h a p db = (res, db')"
  shows "res = Inr org
       \<and> organizations db' = organizations db
       \<and> collections db' = collections db
       \<and> map (\<lambda>d. organization (snd d)) (admins db') = map (\<lambda>d. organization (snd d)) (admins db)
       \<and> find (has_id (tok_admin_id a)) (admins db') =
           map_option
             (\<lambda>d. (fst d,
                   (snd d)\<lparr>email := (if truthy (ou_email p) then the (ou_email p)
                                     else email (snd d)),
                           password := (if truthy (ou_password p) then h (the (ou_password p))
                                        else password (snd d))\<rparr>))
             (find (has_id (tok_admin_id a)) (admins db))"
proof -
  have run: "(res, db') = credentials_and_fetch h (tok_admin_id a) p (tok_org_id a) db"
    using assms by (simp add: update_same)
  then have db': "db' = update_credentials h (tok_admin_id a) p db"
    by (metis snd_conv snd_credentials_and_fetch)
  have res: "res = Inr org"
    using run assms(1)
    by (simp add: credentials_and_fetch_def Let_def update_credentials_frame)
  have adm: "find (has_id (tok_admin_id a)) (admins db') =
           map_option
             (\<lambda>d. (fst d,
                   (snd d)\<lparr>email := (if truthy (ou_email p) then the (ou_email p)
                                     else email (snd d)),
                           password := (if truthy (ou_password p) then h (the (ou_password p))
                                        else password (snd d))\<rparr>))
             (find (has_id (tok_admin_id a)) (admins db))"
  proof (cases "truthy (ou_email p) \<or> truthy (ou_password p)")
    case True
    then show ?thesis
      by (simp add: db' update_credentials_def find_update_one_id)
  next
    case False
    then show ?thesis
      by (simp add: db' update_credentials_def option.map_ident)
  qed
  show ?thesis
    using res adm by (simp add: db' update_credentials_frame)
qed

theorem same_name_update_witness:
  "update_organization sample_hash acme_token
      \<lparr>ou_organization_name = '' ACME'', ou_email = Some ''new@x.com'',
       ou_password = Some ''secret9''\<rparr> acme_data_db
   = (Inr (1, \<lparr>organization_name = ''acme'', collection_name = ''org_acme'',
               admin_id = 0, created_at = 7\<rparr>),
      acme_data_db\<lparr>admins := [(0, \<lparr>email = ''new@x.com'', password = ''hash:secret9'',
                      role = ''admin'', organization = ''acme''\<rparr>)],
                   journal := journal acme_data_db @
                     [Set_admin_fields 0 (Some ''new@x.com'') (Some ''hash:secret9'')]\<rparr>)"
proof -
  have org: "find_one (named (tok_org_id acme_token)) (organizations acme_data_db)
      = Some (1, \<lparr>organization_name = ''acme'', collection_name = ''org_acme'',
                  admin_id = 0, created_at = 7\<rparr>)"
    by (simp add: acme_data_db_def acme_db_eval acme_token_def find_one_def named_def)
  have same: "strip_lower (ou_organization_name
      \<lparr>ou_organization_name = '' ACME'', ou_email = Some ''new@x.com'',
       ou_password = Some ''secret9''\<rparr>) = tok_org_id acme_token"
    by (simp add: acme_token_def strip_lower_eval)
  have run: "update_organization sample_hash acme_token
      \<lparr>ou_organization_name = '' ACME'', ou_email = Some ''new@x.com'',
       ou_password = Some ''secret9''\<rparr> acme_data_db
   = (Inr (1, \<lparr>organization_name = ''acme'', collection_name = ''org_acme'',
               admin_id = 0, created_at = 7\<rparr>),
      acme_data_db\<lparr>admins := [(0, \<lparr>email = ''new@x.com'', password = ''hash:secret9'',
                      role = ''admin'', organization = ''acme''\<rparr>)],
                   journal := journal acme_data_db @
                     [Set_admin_fields 0 (Some ''new@x.com'') (Some ''hash:secret9'')]\<rparr>)"
    by (simp add: acme_data_db_def acme_db_eval acme_token_def sample_hash_def service_eval
        store_eval strip_lower_eval)
  show ?thesis
    using same_name_update [OF org same run] run by simp
qed

text \<open>
  The claim C7 as it is worded fails for a password that is sent but empty: the request
  below sends \<^verbatim>\<open>password = ""\<close> with the current name, and the hash of the admin stays
  the hash of the old password, which is not the hash of the empty string.
\<close>

theorem same_name_update_counterexample:
  "map (\<lambda>d. password (snd d))
     (admins (snd (update_organization sample_hash acme_token
        \<lparr>ou_organization_name = ''acme'', ou_email = None, ou_password = Some ''''\<rparr> acme_db)))
   = [''hash:secret1'']
   \<and> sample_hash '''' \<noteq> ''hash:secret1''
   \<and> fst (update_organization sample_hash acme_token
        \<lparr>ou_organization_name = ''acme'', ou_email = None, ou_password = Some ''''\<rparr> acme_db)
     = Inr (1, \<lparr>organization_name = ''acme'', collection_name = ''org_acme'',
                admin_id = 0, created_at = 7\<rparr>)"
  by (simp add: acme_db_eval acme_token_def sample_hash_def service_eval store_eval
      strip_lower_eval)

end
